theory Spec2Isabelle
  imports Complex_Main "HOL-Library.Sublist"
begin

section \<open>Scope 3 value-chain dashboard: calculation engine and data-quality scorer\<close>

text \<open>
  A shallow embedding of \<^verbatim>\<open>calculate_emissions\<close> and
  \<^verbatim>\<open>calculate_data_quality\<close> of \<^verbatim>\<open>scope3_dashboard.py\<close>. Python numbers are modelled
  as mathematical reals: the arithmetic is exact, so the rounding error and the infinities
  of binary floating point are outside the model. Every way the Python can raise (a
  missing dictionary key, a square root of a negative number, a division by zero, a
  square beyond the range of a double) is a value of the type \<open>error\<close>. Where a property
  of the exact arithmetic would not survive the doubles of the code, its statement keeps
  to the range in which no double operation overflows, and allows for their rounding.
\<close>

subsection \<open>Values, errors and dictionaries\<close>

datatype error = KeyError string | ValueError | ZeroDivisionError | OverflowError

text \<open>Sequencing of two computations that may raise: the first error wins.\<close>

definition bnd :: "error + 'a \<Rightarrow> ('a \<Rightarrow> error + 'b) \<Rightarrow> error + 'b" where
  "bnd m k = (case m of Inl e \<Rightarrow> Inl e | Inr v \<Rightarrow> k v)"

text \<open>
  The input record is the dictionary \<^verbatim>\<open>inputs\<close> that the data-entry section
  assembles: its numeric entries hold numbers (the field \<open>num\<close>) and its optional entry
  \<^verbatim>\<open>"method"\<close> holds a label (the field \<open>method_label\<close>).
\<close>

record inputs =
  num :: "string \<rightharpoonup> real"
  method_label :: "string option"

text \<open>\<^verbatim>\<open>inputs[key]\<close>: raises \<^verbatim>\<open>KeyError(key)\<close> when the key is absent.\<close>

definition subscript :: "inputs \<Rightarrow> string \<Rightarrow> error + real" where
  "subscript inputs key =
     (case num inputs key of None \<Rightarrow> Inl (KeyError key) | Some v \<Rightarrow> Inr v)"

text \<open>\<^verbatim>\<open>inputs.get(key, default)\<close> on a numeric entry and on the method entry.\<close>

definition get_num :: "inputs \<Rightarrow> string \<Rightarrow> real \<Rightarrow> real" where
  "get_num inputs key dflt = (case num inputs key of None \<Rightarrow> dflt | Some v \<Rightarrow> v)"

definition get_method :: "inputs \<Rightarrow> string \<Rightarrow> string" where
  "get_method inputs dflt = (case method_label inputs of None \<Rightarrow> dflt | Some m \<Rightarrow> m)"

text \<open>\<^verbatim>\<open>needle in haystack\<close> on strings: a contiguous occurrence.\<close>

definition str_contains :: "string \<Rightarrow> string \<Rightarrow> bool" where
  "str_contains needle haystack = sublist needle haystack"

text \<open>\<^verbatim>\<open>a / b\<close>: raises \<^verbatim>\<open>ZeroDivisionError\<close> when the divisor is zero.\<close>

definition truediv :: "real \<Rightarrow> real \<Rightarrow> error + real" where
  "truediv a b = (if b = 0 then Inl ZeroDivisionError else Inr (a / b))"

text \<open>\<^verbatim>\<open>math.sqrt(x)\<close>: raises \<^verbatim>\<open>ValueError\<close> on a negative argument.\<close>

definition math_sqrt :: "real \<Rightarrow> error + real" where
  "math_sqrt x = (if x < 0 then Inl ValueError else Inr (sqrt x))"

text \<open>
  \<^verbatim>\<open>round(x, ndigits)\<close>: the nearest multiple of \<open>10\<^sup>-\<^sup>n\<close>, a tie going to the even
  neighbour.
\<close>

definition round_half_even :: "real \<Rightarrow> int" where
  "round_half_even x =
     (let fl = \<lfloor>x\<rfloor>; d = x - of_int fl
      in if d < 1 / 2 then fl
         else if 1 / 2 < d then fl + 1
         else if even fl then fl else fl + 1)"

definition py_round :: "real \<Rightarrow> nat \<Rightarrow> real" where
  "py_round x ndigits = of_int (round_half_even (x * 10 ^ ndigits)) / 10 ^ ndigits"

subsection \<open>The calculation engine\<close>

text \<open>The bodies of the five branches of \<^verbatim>\<open>calculate_emissions\<close>, in source order.\<close>

definition business_travel :: "inputs \<Rightarrow> error + (real \<times> string)" where
  "business_travel inputs =
     bnd (subscript inputs ''distance_km'') (\<lambda>distance.
     bnd (subscript inputs ''travel_factor'') (\<lambda>travel_factor.
     bnd (subscript inputs ''hotel_nights'') (\<lambda>hotel_nights.
     bnd (subscript inputs ''hotel_factor'') (\<lambda>hotel_factor.
       Inr ((distance * travel_factor) + (hotel_nights * hotel_factor), ''Activity-Based'')))))"

definition transportation :: "inputs \<Rightarrow> error + (real \<times> string)" where
  "transportation inputs =
     bnd (subscript inputs ''distance_km'') (\<lambda>distance.
     bnd (subscript inputs ''weight_tonnes'') (\<lambda>weight.
     bnd (subscript inputs ''transport_factor'') (\<lambda>factor.
       Inr (distance * weight * factor, ''Activity-Based''))))"

definition investments :: "inputs \<Rightarrow> error + (real \<times> string)" where
  "investments inputs =
     bnd (subscript inputs ''investee_emissions'') (\<lambda>company_emissions.
     bnd (subscript inputs ''outstanding_amount'') (\<lambda>outstanding_amount.
     bnd (subscript inputs ''evic'') (\<lambda>evic.
     bnd (if evic \<noteq> 0 then truediv outstanding_amount evic else Inr 0) (\<lambda>attribution_factor.
       Inr (company_emissions * attribution_factor, ''PCAF Financed Emissions'')))))"

definition use_of_sold_products :: "inputs \<Rightarrow> error + (real \<times> string)" where
  "use_of_sold_products inputs =
     bnd (subscript inputs ''lifetime_years'') (\<lambda>lifetime_years.
     bnd (subscript inputs ''annual_usage_kwh'') (\<lambda>annual_usage.
     bnd (subscript inputs ''grid_factor'') (\<lambda>grid_factor.
       Inr (lifetime_years * annual_usage * grid_factor, ''Activity-Based''))))"

definition generic :: "inputs \<Rightarrow> error + (real \<times> string)" where
  "generic inputs =
     Inr (get_num inputs ''quantity'' 0 * get_num inputs ''generic_factor'' 0,
          get_method inputs ''Average-Data'')"

definition calculate_emissions :: "string \<Rightarrow> inputs \<Rightarrow> error + (real \<times> string)" where
  "calculate_emissions category_name inputs =
     (if category_name = ''Business Travel'' then business_travel inputs
      else if str_contains ''Transportation'' category_name then transportation inputs
      else if category_name = ''Investments'' then investments inputs
      else if category_name = ''Use of Sold Products'' then use_of_sold_products inputs
      else generic inputs)"

subsection \<open>The data-quality scorer\<close>

definition METHOD_HIERARCHY :: "(string \<times> int) list" where
  "METHOD_HIERARCHY =
     [(''Supplier-Specific'', 5),
      (''Activity-Based'', 4),
      (''Average-Data'', 3),
      (''Spend-Based'', 2),
      (''Proxy Estimate'', 1)]"

text \<open>\<^verbatim>\<open>d.get(key, default)\<close> on a dictionary given by its items.\<close>

definition dict_get :: "('k \<times> 'v) list \<Rightarrow> 'k \<Rightarrow> 'v \<Rightarrow> 'v" where
  "dict_get d key dflt = (case map_of d key of None \<Rightarrow> dflt | Some v \<Rightarrow> v)"

text \<open>\<^verbatim>\<open>calculate_data_quality\<close> in exact arithmetic.\<close>

definition calculate_data_quality ::
  "string \<Rightarrow> real \<Rightarrow> real \<Rightarrow> real \<Rightarrow> error + (real \<times> real)" where
  "calculate_data_quality meth activity_uncertainty_pct factor_uncertainty_pct coverage_pct =
     (let hierarchy_score = of_int (dict_get METHOD_HIERARCHY meth 1) / 5 in
      bnd (math_sqrt (activity_uncertainty_pct ^ 2 + factor_uncertainty_pct ^ 2))
        (\<lambda>combined_uncertainty.
          let uncertainty_score = max 0 (1 - (combined_uncertainty / 100));
              coverage_score = min (max (coverage_pct / 100) 0) 1;
              total_score =
                ((0.4 * hierarchy_score) + (0.3 * uncertainty_score) + (0.3 * coverage_score)) * 100
          in Inr (py_round total_score 1, py_round combined_uncertainty 2)))"

text \<open>
  The range of a double. A real number rounds to a finite double when it is below
  \<open>overflow_threshold\<close>, the midpoint between the largest double and \<open>2\<^sup>1\<^sup>0\<^sup>2\<^sup>4\<close>; a number
  up to \<open>half_range\<close> stays below it through the few roundings of one formula.
\<close>

definition overflow_threshold :: real where
  "overflow_threshold = 2 ^ 1024 - 2 ^ 970"

definition half_range :: real where
  "half_range = 2 ^ 1023"

text \<open>
  \<^verbatim>\<open>x ** 2\<close> on a double: raises \<^verbatim>\<open>OverflowError\<close> when the square rounds to infinity.
\<close>

definition float_pow2 :: "real \<Rightarrow> error + real" where
  "float_pow2 x = (if overflow_threshold \<le> x ^ 2 then Inl OverflowError else Inr (x ^ 2))"

text \<open>
  \<^verbatim>\<open>calculate_data_quality\<close> once more, with the two squares computed as the doubles
  compute them: the only operation of the scorer that raises on a number too large. (The
  sum of the squares can still round to infinity, which raises nothing.)
\<close>

definition calculate_data_quality_checked ::
  "string \<Rightarrow> real \<Rightarrow> real \<Rightarrow> real \<Rightarrow> error + (real \<times> real)" where
  "calculate_data_quality_checked meth activity_uncertainty_pct factor_uncertainty_pct
       coverage_pct =
     (let hierarchy_score = of_int (dict_get METHOD_HIERARCHY meth 1) / 5 in
      bnd (float_pow2 activity_uncertainty_pct) (\<lambda>activity_squared.
      bnd (float_pow2 factor_uncertainty_pct) (\<lambda>factor_squared.
      bnd (math_sqrt (activity_squared + factor_squared)) (\<lambda>combined_uncertainty.
        let uncertainty_score = max 0 (1 - (combined_uncertainty / 100));
            coverage_score = min (max (coverage_pct / 100) 0) 1;
            total_score =
              ((0.4 * hierarchy_score) + (0.3 * uncertainty_score) + (0.3 * coverage_score)) * 100
        in Inr (py_round total_score 1, py_round combined_uncertainty 2)))))"

text \<open>The keys of the table: the five method-hierarchy labels.\<close>

definition hierarchy_labels :: "string list" where
  "hierarchy_labels = map fst METHOD_HIERARCHY"

text \<open>
  The value of \<^verbatim>\<open>total_score\<close> before rounding, with the constant factors multiplied
  out (\<open>0.4 / 5 \<times> 100 = 8\<close>, \<open>0.3 \<times> 100 = 30\<close>); used to reason about the scorer.
\<close>

definition unrounded_score :: "string \<Rightarrow> real \<Rightarrow> real \<Rightarrow> real \<Rightarrow> real" where
  "unrounded_score meth a f c =
     8 * of_int (dict_get METHOD_HIERARCHY meth 1)
       + 30 * max 0 (1 - sqrt (a\<^sup>2 + f\<^sup>2) / 100)
       + 30 * min (max (c / 100) 0) 1"

subsection \<open>The formula families of the engine\<close>

text \<open>
  The specification's table: five formula families, each with a pattern on the category
  label, tried in the order of \<open>precedence\<close>; the first family whose pattern matches is
  the one dispatched to.
\<close>

datatype family = BusinessTravel | Transportation | Investments | UseOfSoldProducts | Generic

fun matches :: "family \<Rightarrow> string \<Rightarrow> bool" where
  "matches BusinessTravel label = (label = ''Business Travel'')"
| "matches Transportation label = str_contains ''Transportation'' label"
| "matches Investments label = (label = ''Investments'')"
| "matches UseOfSoldProducts label = (label = ''Use of Sold Products'')"
| "matches Generic label = True"

definition precedence :: "family list" where
  "precedence = [BusinessTravel, Transportation, Investments, UseOfSoldProducts, Generic]"

definition dispatch :: "string \<Rightarrow> family" where
  "dispatch label =
     (case find (\<lambda>fam. matches fam label) precedence of
        Some fam \<Rightarrow> fam
      | None \<Rightarrow> Generic)"

text \<open>The branch of the source that computes each family.\<close>

fun branch :: "family \<Rightarrow> inputs \<Rightarrow> error + (real \<times> string)" where
  "branch BusinessTravel = business_travel"
| "branch Transportation = transportation"
| "branch Investments = investments"
| "branch UseOfSoldProducts = use_of_sold_products"
| "branch Generic = generic"

text \<open>The keys that each branch of the source subscripts, in the order it reads them.\<close>

fun required_fields :: "family \<Rightarrow> string list" where
  "required_fields BusinessTravel =
     [''distance_km'', ''travel_factor'', ''hotel_nights'', ''hotel_factor'']"
| "required_fields Transportation = [''distance_km'', ''weight_tonnes'', ''transport_factor'']"
| "required_fields Investments = [''investee_emissions'', ''outstanding_amount'', ''evic'']"
| "required_fields UseOfSoldProducts = [''lifetime_years'', ''annual_usage_kwh'', ''grid_factor'']"
| "required_fields Generic = []"

text \<open>
  The values that each branch of the source computes on the way to the emissions, the
  emissions last, in exact arithmetic.
\<close>

fun intermediates :: "family \<Rightarrow> inputs \<Rightarrow> real list" where
  "intermediates BusinessTravel inputs =
     (let distance = get_num inputs ''distance_km'' 0;
          travel_factor = get_num inputs ''travel_factor'' 0;
          hotel_nights = get_num inputs ''hotel_nights'' 0;
          hotel_factor = get_num inputs ''hotel_factor'' 0
      in [distance * travel_factor, hotel_nights * hotel_factor,
          (distance * travel_factor) + (hotel_nights * hotel_factor)])"
| "intermediates Transportation inputs =
     (let distance = get_num inputs ''distance_km'' 0;
          weight = get_num inputs ''weight_tonnes'' 0;
          factor = get_num inputs ''transport_factor'' 0
      in [distance * weight, distance * weight * factor])"
| "intermediates Investments inputs =
     (let company_emissions = get_num inputs ''investee_emissions'' 0;
          outstanding_amount = get_num inputs ''outstanding_amount'' 0;
          evic = get_num inputs ''evic'' 0;
          attribution_factor = (if evic \<noteq> 0 then outstanding_amount / evic else 0)
      in [attribution_factor, company_emissions * attribution_factor])"
| "intermediates UseOfSoldProducts inputs =
     (let lifetime_years = get_num inputs ''lifetime_years'' 0;
          annual_usage = get_num inputs ''annual_usage_kwh'' 0;
          grid_factor = get_num inputs ''grid_factor'' 0
      in [lifetime_years * annual_usage, lifetime_years * annual_usage * grid_factor])"
| "intermediates Generic inputs =
     [get_num inputs ''quantity'' 0 * get_num inputs ''generic_factor'' 0]"

subsection \<open>The scoring formula of the specification\<close>

text \<open>
  The specification's algorithm for the score, in its own words: a fixed rank table in
  which an unknown label ranks 1, a clamp, and one closed formula.
\<close>

definition rank :: "string \<Rightarrow> int" where
  "rank label =
     (if label = ''Supplier-Specific'' then 5
      else if label = ''Activity-Based'' then 4
      else if label = ''Average-Data'' then 3
      else if label = ''Spend-Based'' then 2
      else 1)"

definition clamp :: "real \<Rightarrow> real \<Rightarrow> real \<Rightarrow> real" where
  "clamp x lo hi = (if x < lo then lo else if hi < x then hi else x)"

text \<open>The two formulas before rounding.\<close>

definition score_formula :: "string \<Rightarrow> real \<Rightarrow> real \<Rightarrow> real \<Rightarrow> real" where
  "score_formula label a f c =
     100 * (0.4 * (of_int (rank label) / 5)
            + 0.3 * max 0 (1 - sqrt (a\<^sup>2 + f\<^sup>2) / 100)
            + 0.3 * clamp (c / 100) 0 1)"

definition uncertainty_formula :: "real \<Rightarrow> real \<Rightarrow> real" where
  "uncertainty_formula a f = sqrt (a\<^sup>2 + f\<^sup>2)"

text \<open>
  \<open>q\<close> is \<open>x\<close> rounded to \<open>n\<close> decimals: a multiple of \<open>10\<^sup>-\<^sup>n\<close> at most half a unit from
  \<open>x\<close>, both up to a tolerance \<open>tol\<close> for the error of the doubles that compute and hold
  the two numbers. It says nothing of which way a tie goes.
\<close>

definition rounded_to :: "nat \<Rightarrow> real \<Rightarrow> real \<Rightarrow> real \<Rightarrow> bool" where
  "rounded_to n tol x q \<longleftrightarrow>
     \<bar>q - of_int (round (q * 10 ^ n)) / 10 ^ n\<bar> \<le> tol
     \<and> \<bar>q - x\<bar> \<le> 1 / (2 * 10 ^ n) + tol"

section \<open>Properties\<close>

subsection \<open>Auxiliary facts\<close>

lemma bnd_Inr: "bnd (Inr v) k = k v"
  by (simp add: bnd_def)

lemma subscript_Some: "num inputs k = Some v \<Longrightarrow> subscript inputs k = Inr v"
  by (simp add: subscript_def)

lemma not_contains_business_travel: "\<not> str_contains ''Transportation'' ''Business Travel''"
  by (simp add: str_contains_def sublist_code(3))

lemma not_contains_investments: "\<not> str_contains ''Transportation'' ''Investments''"
  by (simp add: str_contains_def sublist_code(3))

lemma not_contains_use_of_sold_products:
  "\<not> str_contains ''Transportation'' ''Use of Sold Products''"
  by (simp add: str_contains_def sublist_code(3))

text \<open>The if-chain of the engine is the first match in the table of patterns.\<close>

lemma dispatch_cases:
  "dispatch label =
     (if label = ''Business Travel'' then BusinessTravel
      else if str_contains ''Transportation'' label then Transportation
      else if label = ''Investments'' then Investments
      else if label = ''Use of Sold Products'' then UseOfSoldProducts
      else Generic)"
  by (simp add: dispatch_def precedence_def)

lemma calculate_emissions_dispatch:
  "calculate_emissions label inputs = branch (dispatch label) inputs"
  by (simp add: calculate_emissions_def dispatch_cases)

lemma specific_patterns_disjoint:
  "length (filter (\<lambda>fam. matches fam label)
     [BusinessTravel, Transportation, Investments, UseOfSoldProducts]) \<le> 1"
  using not_contains_business_travel not_contains_investments not_contains_use_of_sold_products
  by auto

text \<open>A branch raises \<open>KeyError\<close> on the first field it reads and does not find.\<close>

lemma missing_business_travel:
  "find (\<lambda>k. num inputs k = None) (required_fields BusinessTravel) = Some k
   \<Longrightarrow> business_travel inputs = Inl (KeyError k)"
  by (auto simp add: business_travel_def subscript_def bnd_def split: if_splits option.splits)

lemma missing_transportation:
  "find (\<lambda>k. num inputs k = None) (required_fields Transportation) = Some k
   \<Longrightarrow> transportation inputs = Inl (KeyError k)"
  by (auto simp add: transportation_def subscript_def bnd_def split: if_splits option.splits)

lemma missing_investments:
  "find (\<lambda>k. num inputs k = None) (required_fields Investments) = Some k
   \<Longrightarrow> investments inputs = Inl (KeyError k)"
  by (auto simp add: investments_def subscript_def bnd_def split: if_splits option.splits)

lemma missing_use_of_sold_products:
  "find (\<lambda>k. num inputs k = None) (required_fields UseOfSoldProducts) = Some k
   \<Longrightarrow> use_of_sold_products inputs = Inl (KeyError k)"
  by (auto simp add: use_of_sold_products_def subscript_def bnd_def split: if_splits option.splits)

lemma find_missing:
  "\<exists>k \<in> set ks. num inputs k = None \<Longrightarrow> \<exists>k. find (\<lambda>k. num inputs k = None) ks = Some k"
  by (cases "find (\<lambda>k. num inputs k = None) ks") (auto simp add: find_None_iff)

text \<open>
  A branch on a record of non-negative numbers that holds its fields and whose
  intermediate values stay within half the range of a double.
\<close>

lemma get_num_Some: "num inputs k = Some v \<Longrightarrow> get_num inputs k d = v"
  by (simp add: get_num_def)

lemma half_range_below_threshold: "half_range < overflow_threshold"
  by (simp add: half_range_def overflow_threshold_def)

lemma below_threshold: "x \<le> half_range \<Longrightarrow> x < overflow_threshold"
  using half_range_below_threshold by linarith

lemma business_travel_in_range:
  assumes nonneg: "\<forall>k v. num inputs k = Some v \<longrightarrow> 0 \<le> v"
    and present: "\<forall>k \<in> set (required_fields BusinessTravel). num inputs k \<noteq> None"
    and range: "\<forall>x \<in> set (intermediates BusinessTravel inputs). x \<le> half_range"
  shows "\<exists>e. business_travel inputs = Inr (e, ''Activity-Based'') \<and> 0 \<le> e \<and> e \<le> half_range"
proof -
  from present obtain d tf hn hf
    where f: "num inputs ''distance_km'' = Some d" "num inputs ''travel_factor'' = Some tf"
      "num inputs ''hotel_nights'' = Some hn" "num inputs ''hotel_factor'' = Some hf"
    by auto
  with nonneg have "0 \<le> d" and "0 \<le> tf" and "0 \<le> hn" and "0 \<le> hf"
    by blast+
  then have "0 \<le> d * tf + hn * hf"
    by simp
  moreover from range f have "d * tf + hn * hf \<le> half_range"
    by (simp add: get_num_Some Let_def)
  moreover from f have "business_travel inputs = Inr (d * tf + hn * hf, ''Activity-Based'')"
    by (simp add: business_travel_def subscript_Some bnd_Inr)
  ultimately show ?thesis
    by simp
qed

lemma transportation_in_range:
  assumes nonneg: "\<forall>k v. num inputs k = Some v \<longrightarrow> 0 \<le> v"
    and present: "\<forall>k \<in> set (required_fields Transportation). num inputs k \<noteq> None"
    and range: "\<forall>x \<in> set (intermediates Transportation inputs). x \<le> half_range"
  shows "\<exists>e. transportation inputs = Inr (e, ''Activity-Based'') \<and> 0 \<le> e \<and> e \<le> half_range"
proof -
  from present obtain d w t
    where f: "num inputs ''distance_km'' = Some d" "num inputs ''weight_tonnes'' = Some w"
      "num inputs ''transport_factor'' = Some t"
    by auto
  with nonneg have "0 \<le> d" and "0 \<le> w" and "0 \<le> t"
    by blast+
  then have "0 \<le> d * w * t"
    by simp
  moreover from range f have "d * w * t \<le> half_range"
    by (simp add: get_num_Some Let_def)
  moreover from f have "transportation inputs = Inr (d * w * t, ''Activity-Based'')"
    by (simp add: transportation_def subscript_Some bnd_Inr)
  ultimately show ?thesis
    by simp
qed

lemma investments_in_range:
  assumes nonneg: "\<forall>k v. num inputs k = Some v \<longrightarrow> 0 \<le> v"
    and present: "\<forall>k \<in> set (required_fields Investments). num inputs k \<noteq> None"
    and range: "\<forall>x \<in> set (intermediates Investments inputs). x \<le> half_range"
  shows "\<exists>e. investments inputs = Inr (e, ''PCAF Financed Emissions'') \<and> 0 \<le> e
           \<and> e \<le> half_range"
proof -
  from present obtain ie oa ev
    where f: "num inputs ''investee_emissions'' = Some ie"
      "num inputs ''outstanding_amount'' = Some oa" "num inputs ''evic'' = Some ev"
    by auto
  with nonneg have "0 \<le> ie" and "0 \<le> oa" and "0 \<le> ev"
    by blast+
  then have "0 \<le> ie * (if ev \<noteq> 0 then oa / ev else 0)"
    by simp
  moreover from range f have "ie * (if ev \<noteq> 0 then oa / ev else 0) \<le> half_range"
    by (simp add: get_num_Some Let_def)
  moreover from f have "investments inputs
      = Inr (ie * (if ev \<noteq> 0 then oa / ev else 0), ''PCAF Financed Emissions'')"
    by (simp add: investments_def subscript_Some bnd_Inr truediv_def)
  ultimately show ?thesis
    by simp
qed

lemma use_of_sold_products_in_range:
  assumes nonneg: "\<forall>k v. num inputs k = Some v \<longrightarrow> 0 \<le> v"
    and present: "\<forall>k \<in> set (required_fields UseOfSoldProducts). num inputs k \<noteq> None"
    and range: "\<forall>x \<in> set (intermediates UseOfSoldProducts inputs). x \<le> half_range"
  shows "\<exists>e. use_of_sold_products inputs = Inr (e, ''Activity-Based'') \<and> 0 \<le> e
           \<and> e \<le> half_range"
proof -
  from present obtain l u g
    where f: "num inputs ''lifetime_years'' = Some l" "num inputs ''annual_usage_kwh'' = Some u"
      "num inputs ''grid_factor'' = Some g"
    by auto
  with nonneg have "0 \<le> l" and "0 \<le> u" and "0 \<le> g"
    by blast+
  then have "0 \<le> l * u * g"
    by simp
  moreover from range f have "l * u * g \<le> half_range"
    by (simp add: get_num_Some Let_def)
  moreover from f have "use_of_sold_products inputs = Inr (l * u * g, ''Activity-Based'')"
    by (simp add: use_of_sold_products_def subscript_Some bnd_Inr)
  ultimately show ?thesis
    by simp
qed

lemma get_num_nonneg:
  "\<forall>k v. num inputs k = Some v \<longrightarrow> 0 \<le> v \<Longrightarrow> 0 \<le> get_num inputs key 0"
  by (simp add: get_num_def split: option.splits)

lemma generic_in_range:
  assumes nonneg: "\<forall>k v. num inputs k = Some v \<longrightarrow> 0 \<le> v"
    and range: "\<forall>x \<in> set (intermediates Generic inputs). x \<le> half_range"
    and label_ok: "\<forall>m. method_label inputs = Some m \<longrightarrow>
        m \<in> set hierarchy_labels \<or> m = ''PCAF Financed Emissions''"
  shows "\<exists>e m. generic inputs = Inr (e, m) \<and> 0 \<le> e \<and> e \<le> half_range
           \<and> (m \<in> set hierarchy_labels \<or> m = ''PCAF Financed Emissions'')"
proof -
  have "0 \<le> get_num inputs ''quantity'' 0 * get_num inputs ''generic_factor'' 0"
    using nonneg by (intro mult_nonneg_nonneg get_num_nonneg)
  moreover from range
  have "get_num inputs ''quantity'' 0 * get_num inputs ''generic_factor'' 0 \<le> half_range"
    by simp
  moreover have "get_method inputs ''Average-Data'' \<in> set hierarchy_labels
      \<or> get_method inputs ''Average-Data'' = ''PCAF Financed Emissions''"
    using label_ok
    by (auto simp add: get_method_def hierarchy_labels_def METHOD_HIERARCHY_def
        split: option.splits)
  ultimately show ?thesis
    by (simp add: generic_def)
qed

lemma activity_based_label: "''Activity-Based'' \<in> set hierarchy_labels"
  by (simp add: hierarchy_labels_def METHOD_HIERARCHY_def)









text \<open>Square roots of the perfect squares the examples need.\<close>

lemma sqrt_eqI: "0 \<le> r \<Longrightarrow> r * r = x \<Longrightarrow> sqrt x = r"
  by (auto simp add: real_sqrt_mult)

lemma sqrt_625: "sqrt 625 = 25"
  by (rule sqrt_eqI) simp_all


lemma sqrt_square_123: "sqrt (15129 / 1000000) = 123 / 1000"
  by (rule sqrt_eqI) simp_all

text \<open>The scorer never raises: a sum of two squares has a square root.\<close>

lemma math_sqrt_squares: "math_sqrt (a\<^sup>2 + f\<^sup>2) = Inr (sqrt (a\<^sup>2 + f\<^sup>2))"
  by (simp add: math_sqrt_def not_less)

lemma calculate_data_quality_eq:
  "calculate_data_quality m a f c =
     Inr (py_round (unrounded_score m a f c) 1, py_round (sqrt (a\<^sup>2 + f\<^sup>2)) 2)"
  by (simp add: calculate_data_quality_def math_sqrt_squares bnd_Inr Let_def
      unrounded_score_def algebra_simps)

text \<open>The dictionary lookup with default 1 is the rank table of the specification.\<close>

lemma rank_dict_get: "dict_get METHOD_HIERARCHY m 1 = rank m"
  by (simp add: dict_get_def METHOD_HIERARCHY_def rank_def)

lemma clamp_min_max: "clamp x 0 1 = min (max x 0) 1"
  by (simp add: clamp_def min_def max_def)

text \<open>Within half the range of a double the two squares raise nothing.\<close>

lemma float_pow2_in_range: "x\<^sup>2 \<le> half_range \<Longrightarrow> float_pow2 x = Inr (x\<^sup>2)"
  using half_range_below_threshold by (simp add: float_pow2_def)

lemma checked_in_range:
  assumes "a\<^sup>2 + f\<^sup>2 \<le> half_range"
  shows "calculate_data_quality_checked m a f c = calculate_data_quality m a f c"
proof -
  have "a\<^sup>2 \<le> a\<^sup>2 + f\<^sup>2" and "f\<^sup>2 \<le> a\<^sup>2 + f\<^sup>2"
    by simp_all
  with assms have "a\<^sup>2 \<le> half_range" and "f\<^sup>2 \<le> half_range"
    by linarith+
  then have "float_pow2 a = Inr (a\<^sup>2)" and "float_pow2 f = Inr (f\<^sup>2)"
    by (simp_all add: float_pow2_in_range)
  then show ?thesis
    by (simp add: calculate_data_quality_checked_def calculate_data_quality_def bnd_Inr)
qed

text \<open>Rounding half to even lands on the grid, at most half a unit away.\<close>

lemma round_half_even_near: "\<bar>of_int (round_half_even x) - x\<bar> \<le> 1 / 2"
proof -
  have "of_int \<lfloor>x\<rfloor> \<le> x" and "x < of_int \<lfloor>x\<rfloor> + 1"
    by linarith+
  then show ?thesis
    by (auto simp add: round_half_even_def Let_def abs_le_iff)
qed

lemma py_round_grid: "of_int (round (py_round x n * 10 ^ n)) / 10 ^ n = py_round x n"
  by (simp add: py_round_def)

lemma py_round_near: "\<bar>py_round x n - x\<bar> \<le> 1 / (2 * 10 ^ n)"
proof -
  have "\<bar>py_round x n - x\<bar> = \<bar>of_int (round_half_even (x * 10 ^ n)) - x * 10 ^ n\<bar> / 10 ^ n"
    by (simp add: py_round_def field_simps abs_divide)
  also have "\<dots> \<le> (1 / 2) / 10 ^ n"
    by (intro divide_right_mono round_half_even_near) simp
  finally show ?thesis
    by simp
qed

lemma py_round_rounded_to: "0 \<le> tol \<Longrightarrow> rounded_to n tol x (py_round x n)"
  unfolding rounded_to_def py_round_grid using py_round_near [of x n] by simp

lemma unrounded_score_formula: "unrounded_score m a f c = score_formula m a f c"
  by (simp add: unrounded_score_def score_formula_def rank_dict_get clamp_min_max)

text \<open>Two inputs whose score is not on the grid before rounding.\<close>

lemma scorer_example_rounding: "calculate_data_quality ''Activity-Based'' 20 15 85.1 = Inr (80, 25)"
  by (simp add: calculate_data_quality_eq unrounded_score_def dict_get_def METHOD_HIERARCHY_def
      sqrt_625 py_round_def round_half_even_def)

lemma scorer_example_unknown: "calculate_data_quality ''Unknown-Method'' 0.123 0 33.3 = Inr (48, 0.12)"
  by (simp add: calculate_data_quality_eq unrounded_score_def dict_get_def METHOD_HIERARCHY_def
      sqrt_square_123 py_round_def round_half_even_def)

lemma formula_example_rounding: "score_formula ''Activity-Based'' 20 15 85.1 = 80.03"
  by (simp add: score_formula_def rank_def clamp_def sqrt_625)

lemma formula_example_unknown: "score_formula ''Unknown-Method'' 0.123 0 33.3 = 47.9531 \<and> uncertainty_formula 0.123 0 = 0.123"
  by (simp add: score_formula_def uncertainty_formula_def rank_def clamp_def sqrt_square_123)









subsection \<open>The calculation engine\<close>

text \<open>
  C2: for every category label the engine runs the branch of the first pattern, in the
  order of the table (exactly Business Travel, containing Transportation, exactly
  Investments, exactly Use of Sold Products, anything else), that the label matches; and
  no label matches two of the four specific patterns, so the order among them never
  decides.
\<close>

theorem dispatch_precedence:
  "calculate_emissions label inputs = branch (dispatch label) inputs
   \<and> length (filter (\<lambda>fam. matches fam label)
        [BusinessTravel, Transportation, Investments, UseOfSoldProducts]) \<le> 1"
  using calculate_emissions_dispatch specific_patterns_disjoint by blast

theorem dispatch_precedence_witness:
  "dispatch ''Upstream Transportation & Distribution'' = Transportation
   \<and> calculate_emissions ''Upstream Transportation & Distribution''
       \<lparr>num = [''distance_km'' \<mapsto> 100, ''weight_tonnes'' \<mapsto> 2, ''transport_factor'' \<mapsto> 0.122],
        method_label = None\<rparr>
     = Inr (24.4, ''Activity-Based'')"
  using dispatch_precedence
    [of "''Upstream Transportation & Distribution''"
        "\<lparr>num = [''distance_km'' \<mapsto> 100, ''weight_tonnes'' \<mapsto> 2, ''transport_factor'' \<mapsto> 0.122],
          method_label = None\<rparr>"]
  by (simp add: dispatch_cases str_contains_def sublist_code(3) transportation_def
      subscript_def bnd_def)







text \<open>
  C4, as amended: for every category label that matches one of the four specific patterns
  and every record that lacks a field its branch reads, the engine returns no value and
  substitutes no default: it raises \<open>KeyError\<close> with the name of the first missing field,
  in the order the branch reads them.
\<close>

theorem missing_field_raises:
  assumes "dispatch label \<noteq> Generic"
    and "\<exists>k \<in> set (required_fields (dispatch label)). num inputs k = None"
  shows "\<exists>k. find (\<lambda>k. num inputs k = None) (required_fields (dispatch label)) = Some k
           \<and> calculate_emissions label inputs = Inl (KeyError k)"
proof -
  from assms(2) obtain k
    where k: "find (\<lambda>k. num inputs k = None) (required_fields (dispatch label)) = Some k"
    using find_missing by blast
  have "calculate_emissions label inputs = Inl (KeyError k)"
  proof (cases "dispatch label")
    case BusinessTravel
    with k show ?thesis
      by (simp add: calculate_emissions_dispatch missing_business_travel)
  next
    case Transportation
    with k show ?thesis
      by (simp add: calculate_emissions_dispatch missing_transportation)
  next
    case Investments
    with k show ?thesis
      by (simp add: calculate_emissions_dispatch missing_investments)
  next
    case UseOfSoldProducts
    with k show ?thesis
      by (simp add: calculate_emissions_dispatch missing_use_of_sold_products)
  next
    case Generic
    with assms(1) show ?thesis
      by simp
  qed
  with k show ?thesis
    by blast
qed

theorem missing_field_raises_witness:
  "calculate_emissions ''Investments''
     \<lparr>num = [''investee_emissions'' \<mapsto> 1000, ''evic'' \<mapsto> 200], method_label = None\<rparr>
   = Inl (KeyError ''outstanding_amount'')"
  using missing_field_raises
    [of "''Investments''"
        "\<lparr>num = [''investee_emissions'' \<mapsto> 1000, ''evic'' \<mapsto> 200], method_label = None\<rparr>"]
  by (simp add: dispatch_cases not_contains_investments)

text \<open>
  C4 as it is stated fails: the error carries the name of the missing field and nothing
  else. Business Travel and a Transportation category raise the same error on the empty
  record, so the error does not tell the category.
\<close>

theorem missing_field_raises_counterexample:
  "calculate_emissions ''Business Travel'' \<lparr>num = Map.empty, method_label = None\<rparr>
     = Inl (KeyError ''distance_km'')
   \<and> calculate_emissions ''Upstream Transportation & Distribution''
       \<lparr>num = Map.empty, method_label = None\<rparr>
     = Inl (KeyError ''distance_km'')"
  by (simp add: calculate_emissions_def business_travel_def transportation_def subscript_def
      bnd_def str_contains_def sublist_code(3))

text \<open>
  C6, as amended: for every category label and every record whose numbers are all
  non-negative, that holds the fields the matched branch reads, whose intermediate values
  in that branch stay within half the range of a double, and whose method entry, where the
  default branch reads it, is one of the five method-hierarchy labels or PCAF Financed
  Emissions, the engine returns emissions that are non-negative and within the range of a
  double, and a method that is one of the five method-hierarchy labels or PCAF Financed
  Emissions.
\<close>

theorem result_well_formed:
  assumes nonneg: "\<forall>k v. num inputs k = Some v \<longrightarrow> 0 \<le> v"
    and present: "\<forall>k \<in> set (required_fields (dispatch label)). num inputs k \<noteq> None"
    and range: "\<forall>x \<in> set (intermediates (dispatch label) inputs). x \<le> half_range"
    and label_ok: "dispatch label = Generic \<longrightarrow>
      (\<forall>m. method_label inputs = Some m \<longrightarrow>
         m \<in> set hierarchy_labels \<or> m = ''PCAF Financed Emissions'')"
  shows "\<exists>e m. calculate_emissions label inputs = Inr (e, m)
           \<and> 0 \<le> e \<and> e < overflow_threshold
           \<and> (m \<in> set hierarchy_labels \<or> m = ''PCAF Financed Emissions'')"
proof (cases "dispatch label")
  case BusinessTravel
  with business_travel_in_range [OF nonneg] present range activity_based_label show ?thesis
    by (auto simp add: calculate_emissions_dispatch below_threshold)
next
  case Transportation
  with transportation_in_range [OF nonneg] present range activity_based_label show ?thesis
    by (auto simp add: calculate_emissions_dispatch below_threshold)
next
  case Investments
  with investments_in_range [OF nonneg] present range show ?thesis
    by (auto simp add: calculate_emissions_dispatch below_threshold)
next
  case UseOfSoldProducts
  with use_of_sold_products_in_range [OF nonneg] present range activity_based_label
  show ?thesis
    by (auto simp add: calculate_emissions_dispatch below_threshold)
next
  case Generic
  with generic_in_range [OF nonneg] range label_ok show ?thesis
    by (auto simp add: calculate_emissions_dispatch below_threshold)
qed

theorem result_well_formed_witness:
  "(\<exists>e m. calculate_emissions ''Investments''
       \<lparr>num = [''investee_emissions'' \<mapsto> 1000, ''outstanding_amount'' \<mapsto> 50, ''evic'' \<mapsto> 200],
        method_label = Some ''Hybrid''\<rparr> = Inr (e, m)
      \<and> 0 \<le> e \<and> e < overflow_threshold
      \<and> (m \<in> set hierarchy_labels \<or> m = ''PCAF Financed Emissions''))
   \<and> (\<exists>e m. calculate_emissions ''Franchises''
       \<lparr>num = [''quantity'' \<mapsto> 10, ''generic_factor'' \<mapsto> 2.5],
        method_label = Some ''PCAF Financed Emissions''\<rparr> = Inr (e, m)
      \<and> 0 \<le> e \<and> e < overflow_threshold
      \<and> (m \<in> set hierarchy_labels \<or> m = ''PCAF Financed Emissions''))"
proof
  show "\<exists>e m. calculate_emissions ''Investments''
       \<lparr>num = [''investee_emissions'' \<mapsto> 1000, ''outstanding_amount'' \<mapsto> 50, ''evic'' \<mapsto> 200],
        method_label = Some ''Hybrid''\<rparr> = Inr (e, m)
      \<and> 0 \<le> e \<and> e < overflow_threshold
      \<and> (m \<in> set hierarchy_labels \<or> m = ''PCAF Financed Emissions'')"
    by (rule result_well_formed)
      (simp_all add: dispatch_cases not_contains_investments get_num_def half_range_def)
  show "\<exists>e m. calculate_emissions ''Franchises''
       \<lparr>num = [''quantity'' \<mapsto> 10, ''generic_factor'' \<mapsto> 2.5],
        method_label = Some ''PCAF Financed Emissions''\<rparr> = Inr (e, m)
      \<and> 0 \<le> e \<and> e < overflow_threshold
      \<and> (m \<in> set hierarchy_labels \<or> m = ''PCAF Financed Emissions'')"
    by (rule result_well_formed)
      (simp_all add: dispatch_cases str_contains_def sublist_code(3) get_num_def half_range_def)
qed

text \<open>
  C6 as it is stated fails in the default branch, which hands back whatever label the
  record holds: a record of non-negative numbers with the method entry \<open>Hybrid\<close> gives the
  method \<open>Hybrid\<close>, which is none of the six labels.
\<close>

theorem result_well_formed_counterexample:
  "calculate_emissions ''Franchises''
     \<lparr>num = [''quantity'' \<mapsto> 10, ''generic_factor'' \<mapsto> 2.5], method_label = Some ''Hybrid''\<rparr>
     = Inr (25, ''Hybrid'')
   \<and> ''Hybrid'' \<notin> set hierarchy_labels \<and> ''Hybrid'' \<noteq> ''PCAF Financed Emissions''"
  by (simp add: calculate_emissions_def generic_def get_num_def get_method_def
      str_contains_def sublist_code(3) hierarchy_labels_def METHOD_HIERARCHY_def)

subsection \<open>The scorer\<close>

text \<open>
  C1, as amended: for every method label and every three numbers whose two uncertainty
  inputs have squares that sum to at most half the range of a double, the scorer returns
  (it raises nothing) a pair \<open>(q, u)\<close>: \<open>q\<close> is the weighted sum
  \<open>100 \<times> (0.4 \<times> rank / 5 + 0.3 \<times> max 0 (1 - sqrt (a\<^sup>2 + f\<^sup>2) / 100) + 0.3 \<times> clamp (c / 100) 0 1)\<close>
  rounded to one decimal, and \<open>u\<close> is the root sum of squares, not clamped, rounded to two
  decimals, each up to the error of double arithmetic (at most \<open>10\<^sup>-\<^sup>9\<close>, relative to
  \<open>1 + sqrt (a\<^sup>2 + f\<^sup>2)\<close> for \<open>u\<close>); \<open>rank\<close> is the fixed table and an unknown label
  ranks 1.
\<close>

theorem score_rounds_formula:
  assumes "a\<^sup>2 + f\<^sup>2 \<le> half_range"
  shows "\<exists>q u. calculate_data_quality_checked m a f c = Inr (q, u)
           \<and> rounded_to 1 (1 / 10 ^ 9) (score_formula m a f c) q
           \<and> rounded_to 2 ((1 + uncertainty_formula a f) / 10 ^ 9) (uncertainty_formula a f) u"
proof -
  have "calculate_data_quality_checked m a f c
          = Inr (py_round (score_formula m a f c) 1, py_round (uncertainty_formula a f) 2)"
    using assms
    by (simp add: checked_in_range calculate_data_quality_eq unrounded_score_formula
        uncertainty_formula_def)
  moreover have "rounded_to 1 (1 / 10 ^ 9) (score_formula m a f c)
                   (py_round (score_formula m a f c) 1)"
    by (rule py_round_rounded_to) simp
  moreover have "0 \<le> (1 + uncertainty_formula a f) / 10 ^ 9"
    by (simp add: uncertainty_formula_def)
  then have "rounded_to 2 ((1 + uncertainty_formula a f) / 10 ^ 9) (uncertainty_formula a f)
               (py_round (uncertainty_formula a f) 2)"
    by (rule py_round_rounded_to)
  ultimately show ?thesis
    by blast
qed

text \<open>
  Two inputs whose formula value, 80.03 and 47.9531, is off the grid, the second with a
  label outside the table.
\<close>

theorem score_rounds_formula_witness:
  "calculate_data_quality_checked ''Activity-Based'' 20 15 85.1 = Inr (80, 25)
   \<and> score_formula ''Activity-Based'' 20 15 85.1 = 80.03
   \<and> rounded_to 1 (1 / 10 ^ 9) 80.03 80
   \<and> calculate_data_quality_checked ''Unknown-Method'' 0.123 0 33.3 = Inr (48, 0.12)
   \<and> score_formula ''Unknown-Method'' 0.123 0 33.3 = 47.9531
   \<and> uncertainty_formula 0.123 0 = 0.123
   \<and> rounded_to 1 (1 / 10 ^ 9) 47.9531 48
   \<and> rounded_to 2 ((1 + 0.123) / 10 ^ 9) 0.123 0.12"
proof -
  have r1: "(20::real)\<^sup>2 + 15\<^sup>2 \<le> half_range"
    by (simp add: half_range_def)
  have r2: "(0.123::real)\<^sup>2 + 0\<^sup>2 \<le> half_range"
    by (simp add: half_range_def power2_eq_square)
  have e1: "calculate_data_quality_checked ''Activity-Based'' 20 15 85.1 = Inr (80, 25)"
    using r1 by (simp only: checked_in_range scorer_example_rounding)
  have e2: "calculate_data_quality_checked ''Unknown-Method'' 0.123 0 33.3 = Inr (48, 0.12)"
    using r2 by (simp only: checked_in_range scorer_example_unknown)
  from score_rounds_formula [OF r1, of "''Activity-Based''" "85.1"] obtain q u
    where c1: "calculate_data_quality_checked ''Activity-Based'' 20 15 85.1 = Inr (q, u)"
      and q1: "rounded_to 1 (1 / 10 ^ 9) (score_formula ''Activity-Based'' 20 15 85.1) q"
    by blast
  from c1 e1 have "q = 80"
    by simp
  with q1 have s1: "rounded_to 1 (1 / 10 ^ 9) 80.03 80"
    by (simp only: formula_example_rounding)
  from score_rounds_formula [OF r2, of "''Unknown-Method''" "33.3"] obtain q u
    where c2: "calculate_data_quality_checked ''Unknown-Method'' 0.123 0 33.3 = Inr (q, u)"
      and q2: "rounded_to 1 (1 / 10 ^ 9) (score_formula ''Unknown-Method'' 0.123 0 33.3) q"
      and u2: "rounded_to 2 ((1 + uncertainty_formula 0.123 0) / 10 ^ 9)
                 (uncertainty_formula 0.123 0) u"
    by blast
  from c2 e2 have "q = 48" and "u = 0.12"
    by simp_all
  with q2 u2 have s2: "rounded_to 1 (1 / 10 ^ 9) 47.9531 48"
    and s3: "rounded_to 2 ((1 + 0.123) / 10 ^ 9) 0.123 0.12"
    by (simp_all only: formula_example_unknown)
  from e1 e2 formula_example_rounding formula_example_unknown s1 s2 s3 show ?thesis
    by blast
qed

text \<open>
  C1 as it is stated fails: on an uncertainty input of \<open>10\<^sup>2\<^sup>0\<^sup>0\<close> the square is beyond
  the doubles and the scorer raises \<^verbatim>\<open>OverflowError\<close>.
\<close>

theorem score_rounds_formula_counterexample:
  "calculate_data_quality_checked ''Activity-Based'' (10 ^ 200) 0 50 = Inl OverflowError"
  by (simp add: calculate_data_quality_checked_def float_pow2_def overflow_threshold_def
      bnd_def)

text \<open>
  At a tie the statement admits both neighbours: the formula gives 70.15 on
  \<open>(Supplier-Specific, 0, 0, 0.5)\<close>, where exact arithmetic rounds to 70.2 and the
  doubles of the code, whose sum is just below 70.15, to 70.1.
\<close>

lemma tie_either_way:
  "score_formula ''Supplier-Specific'' 0 0 0.5 = 70.15
   \<and> rounded_to 1 (1 / 10 ^ 9) 70.15 70.1
   \<and> rounded_to 1 (1 / 10 ^ 9) 70.15 70.2"
  by (simp add: score_formula_def rank_def clamp_def rounded_to_def)






end
